theory Spec2Isabelle
  imports Main
begin

section \<open>Python values: \<open>repr\<close>, \<open>str\<close> and truthiness\<close>

text \<open>
  The front end (\<^verbatim>\<open>hyperglass/hyperglass.py\<close>) uses three built-in operations of Python
  whose exact result decides what is cached and under which key: \<^verbatim>\<open>str(lg_data)\<close> of the
  request dictionary (the cache key), \<^verbatim>\<open>str(cache_value)\<close> of the backend result (the cached
  value) and the truth value of an object (\<^verbatim>\<open>if not ...\<close>).

  A Python string is modelled as a \<^typ>\<open>string\<close> whose characters are the code points below 256.
  \<open>py_repr\<close> follows CPython's \<^verbatim>\<open>unicode_repr\<close>: the quote is the double quote (0x22) when
  the string holds a single quote (0x27) and no double quote, and the single quote otherwise; the
  quote and the backslash are escaped with a backslash; tab, newline and carriage return become
  \<^verbatim>\<open>\t\<close>, \<^verbatim>\<open>\n\<close>, \<^verbatim>\<open>\r\<close>; every other character that is not printable becomes
  \<^verbatim>\<open>\xhh\<close> with lower-case hexadecimal digits; a printable character stands for itself.
  Below 256 the characters that are not printable are the controls 0x00-0x1f and 0x7f-0x9f, the
  no-break space 0xa0 and the soft hyphen 0xad.
\<close>

definition sq :: char where
  "sq = CHR 0x27"

definition dq :: char where
  "dq = CHR 0x22"

definition bs :: char where
  "bs = CHR 0x5C"

text \<open>\<^verbatim>\<open>Py_hexdigits[n]\<close>, used with \<open>n < 16\<close> only.\<close>

definition hexdigit :: "nat \<Rightarrow> char" where
  "hexdigit n = ''0123456789abcdef'' ! n"

definition printable :: "char \<Rightarrow> bool" where
  "printable c =
     (let n = (of_char c :: nat) in (32 \<le> n \<and> n < 127) \<or> (161 \<le> n \<and> n \<noteq> 173))"

definition quote_of :: "string \<Rightarrow> char" where
  "quote_of s = (if sq \<in> set s \<and> dq \<notin> set s then dq else sq)"

definition escape :: "char \<Rightarrow> char \<Rightarrow> string" where
  "escape q c =
    (if c = q \<or> c = bs then [bs, c]
     else if c = CHR 0x09 then [bs, CHR ''t'']
     else if c = CHR 0x0A then [bs, CHR ''n'']
     else if c = CHR 0x0D then [bs, CHR ''r'']
     else if \<not> printable c then
       [bs, CHR ''x'', hexdigit (of_char c div 16), hexdigit (of_char c mod 16)]
     else [c])"

definition py_repr :: "string \<Rightarrow> string" where
  "py_repr s = (let q = quote_of s in q # concat (map (escape q) s) @ [q])"

text \<open>
  \<^verbatim>\<open>request.json\<close> is a JSON object whose values are strings (the three form fields). A Python
  \<^verbatim>\<open>dict\<close> keeps its keys in insertion order, which for a parsed body is the order of the keys
  in the body, and \<^verbatim>\<open>str\<close> of a dict lists the items in that order. The dictionary is
  therefore an association list (with distinct keys), not a record: the order is part of the value.
\<close>

type_synonym lg_data = "(string \<times> string) list"

fun dict_items :: "lg_data \<Rightarrow> string" where
  "dict_items [] = []"
| "dict_items [(k, v)] = py_repr k @ '': '' @ py_repr v"
| "dict_items ((k, v) # kvs) = py_repr k @ '': '' @ py_repr v @ '', '' @ dict_items kvs"

definition str_dict :: "lg_data \<Rightarrow> string" where
  "str_dict d = ''{'' @ dict_items d @ ''}''"

text \<open>
  The result of the backend lookup. The class \<^verbatim>\<open>Execute\<close> belongs to another module
  (\<^verbatim>\<open>hyperglass.command.execute\<close>), so the payload is a parameter: a Python value of one of the kinds below (the commented-out
  \<^verbatim>\<open>literal_eval\<close> in \<^verbatim>\<open>hyperglass_main\<close> shows that a tuple of output and status was
  one of them). \<open>truthy\<close> is Python's truth value, \<open>py_str\<close> is \<^verbatim>\<open>str\<close>.
\<close>

datatype pyval =
    PyNone
  | PyBool bool
  | PyInt int
  | PyStr string
  | PyTuple "pyval list"

fun truthy :: "pyval \<Rightarrow> bool" where
  "truthy PyNone = False"
| "truthy (PyBool b) = b"
| "truthy (PyInt i) = (i \<noteq> 0)"
| "truthy (PyStr s) = (s \<noteq> [])"
| "truthy (PyTuple xs) = (xs \<noteq> [])"

fun digits :: "nat \<Rightarrow> string" where
  "digits n = (if n < 10 then [char_of (48 + n)] else digits (n div 10) @ [char_of (48 + n mod 10)])"

definition str_int :: "int \<Rightarrow> string" where
  "str_int i = (if i < 0 then CHR ''-'' # digits (nat (- i)) else digits (nat i))"

fun join :: "string \<Rightarrow> string list \<Rightarrow> string" where
  "join sep [] = []"
| "join sep [x] = x"
| "join sep (x # xs) = x @ sep @ join sep xs"

fun repr_val :: "pyval \<Rightarrow> string" where
  "repr_val PyNone = ''None''"
| "repr_val (PyBool b) = (if b then ''True'' else ''False'')"
| "repr_val (PyInt i) = str_int i"
| "repr_val (PyStr s) = py_repr s"
| "repr_val (PyTuple xs) =
     (case xs of
        [x] \<Rightarrow> ''('' @ repr_val x @ '',)''
      | _ \<Rightarrow> ''('' @ join '', '' (map repr_val xs) @ '')'')"

definition py_str :: "pyval \<Rightarrow> string" where
  "py_str v = (case v of PyStr s \<Rightarrow> s | _ \<Rightarrow> repr_val v)"

text \<open>The truth value of what \<^verbatim>\<open>r_cache.get\<close> returns: \<^verbatim>\<open>None\<close> or a string.\<close>

definition truthy_opt :: "string option \<Rightarrow> bool" where
  "truthy_opt r = (case r of None \<Rightarrow> False | Some s \<Rightarrow> s \<noteq> [])"

text \<open>
  A reader of \<open>py_repr\<close>, used only to prove that the serialization can be read back: it
  consumes the body of a quoted string up to the closing quote \<open>q\<close> and returns the string
  read and the text after the quote.
\<close>

definition unhex :: "char \<Rightarrow> nat" where
  "unhex c = (let n = (of_char c :: nat) in if n \<le> 57 then n - 48 else n - 87)"

fun scan :: "char \<Rightarrow> string \<Rightarrow> (string \<times> string) option" where
  "scan q [] = None"
| "scan q (c # cs) =
    (if c = q then Some ([], cs)
     else if c = bs then
       (case cs of
          [] \<Rightarrow> None
        | e # cs' \<Rightarrow>
            if e = CHR ''x'' then
              (case cs' of
                 h1 # h2 # cs'' \<Rightarrow>
                   map_option (apfst ((#) (char_of (16 * unhex h1 + unhex h2)))) (scan q cs'')
               | _ \<Rightarrow> None)
            else
              map_option
                (apfst ((#) (if e = CHR ''t'' then CHR 0x09
                             else if e = CHR ''n'' then CHR 0x0A
                             else if e = CHR ''r'' then CHR 0x0D else e)))
                (scan q cs'))
     else map_option (apfst ((#) c)) (scan q cs))"

section \<open>Requests, configuration and the backend\<close>

text \<open>
  A request as the handlers read it: the parsed JSON body (\<^verbatim>\<open>request.json\<close>) and the client
  address (\<^verbatim>\<open>get_remote_address(request)\<close>).
\<close>

record request =
  json :: lg_data
  remote_addr :: string

text \<open>
  What the module imports from the configuration: \<^verbatim>\<open>devices.hostnames\<close>,
  \<^verbatim>\<open>Supported.is_supported_query\<close>, \<^verbatim>\<open>params.messages.no_input\<close>,
  \<^verbatim>\<open>params.messages.request_timeout\<close>, \<^verbatim>\<open>params.features.cache.timeout\<close> and
  \<^verbatim>\<open>code.get_reason\<close>. They are defined in other modules and are parameters here.
\<close>

record config =
  hostnames :: "string list"
  is_supported_query :: "string \<Rightarrow> bool"
  no_input :: string
  request_timeout :: string
  cache_timeout :: int
  get_reason :: "int \<Rightarrow> string"

text \<open>
  Modelled from the spec: the exception classes of \<^verbatim>\<open>hyperglass.exceptions\<close> are not among the
  sources; a typed backend failure carries an HTTP-style status, a message and keyword tags. This
  is the dictionary \<^verbatim>\<open>backend_error.__dict__()\<close> gives, with the
  three keys \<^verbatim>\<open>handle_ui_errors\<close> reads: \<^verbatim>\<open>message\<close>, \<^verbatim>\<open>status\<close> and \<^verbatim>\<open>keywords\<close>.
\<close>

record error_dict =
  err_message :: string
  err_status :: int
  err_keywords :: "string list"

datatype backend_exception = AuthError | RestError | ScrapeError | InputInvalid | InputNotAllowed

text \<open>
  \<^verbatim>\<open>await Execute(lg_data).response()\<close> returns a value, raises one of the five exceptions
  \<^verbatim>\<open>hyperglass_main\<close> catches, or raises anything else.
\<close>

datatype backend_result =
    Returns pyval
  | Raises backend_exception error_dict
  | Raises_other string

text \<open>
  The two handlers \<^verbatim>\<open>hyperglass_main\<close> calls inside a \<^verbatim>\<open>raise\<close> statement, and the
  exceptions that leave the functions of the model. \<^verbatim>\<open>handle_missing\<close> and
  \<^verbatim>\<open>handle_ui_errors\<close> are \<^verbatim>\<open>async def\<close> functions, so
  \<^verbatim>\<open>raise handle_missing(request, m)\<close> evaluates the call to a coroutine object (the body of
  the handler does not run) and then fails with Python's
  \<^verbatim>\<open>TypeError: exceptions must derive from BaseException\<close>; \<open>TypeError h m\<close> records the
  handler and the message of the call. \<open>RedisError m\<close> is an exception of the Redis client whose
  text is \<open>m\<close>.
\<close>

datatype handler = Handle_missing | Handle_ui_errors

datatype exn =
    KeyError string
  | TypeError handler string
  | InvalidUsage error_dict
  | Backend_exception string
  | RedisError string
  | HyperglassError string

text \<open>\<^verbatim>\<open>response.json(body, status=...)\<close>, with the JSON values the handlers put in a body.\<close>

datatype jvalue = JNull | JStr string | JInt int | JStrs "string list"

datatype response = Json "(string \<times> jvalue) list" int

section \<open>The cache store, the counters and the trace of effects\<close>

text \<open>
  \<^verbatim>\<open>r_cache\<close> is a Redis database (\<^verbatim>\<open>decode_responses=True\<close>: values are strings), a
  service outside the repository; its commands \<^verbatim>\<open>GET\<close>, \<^verbatim>\<open>SET\<close>, \<^verbatim>\<open>EXPIRE\<close> and
  \<^verbatim>\<open>FLUSHDB\<close> are modelled as Redis documents them. An entry
  holds a value and, once \<^verbatim>\<open>expire\<close> was called, the time at which it ends; an entry whose
  time has come is absent for every later command. \<open>redis_down = Some m\<close> says the server
  cannot be reached and every command raises an exception with text \<open>m\<close>.

  Other clients of the store are not modelled: between two commands of one run only time passes.

  The world also holds a clock (seconds) and the trace of the effects on the collaborators, oldest
  first: the increments of the Prometheus counters \<^verbatim>\<open>count_data\<close> and \<^verbatim>\<open>count_errors\<close> with
  their labels, the commands sent to the cache, and the calls of the backend.
\<close>

record entry =
  entry_value :: string
  expires_at :: "int option"

datatype event =
    Count_data string string string string
  | Count_errors int string string string string string
  | Cache_get string
  | Cache_set string string
  | Cache_expire string int
  | Cache_flushdb
  | Execute_response lg_data

record world =
  clock :: int
  r_cache :: "string \<rightharpoonup> entry"
  redis_down :: "string option"
  trace :: "event list"

text \<open>
  Every \<^verbatim>\<open>await\<close> suspends the handler; \<open>latency\<close> gives the seconds that pass at each of
  the five awaits of \<^verbatim>\<open>hyperglass_main\<close> before the awaited call takes effect.
\<close>

record latency =
  lat_check :: nat
  lat_execute :: nat
  lat_set :: nat
  lat_expire :: nat
  lat_fetch :: nat

definition sleep :: "nat \<Rightarrow> world \<Rightarrow> world" where
  "sleep d w = w\<lparr>clock := clock w + int d\<rparr>"

definition emit :: "event \<Rightarrow> world \<Rightarrow> world" where
  "emit e w = w\<lparr>trace := trace w @ [e]\<rparr>"

definition live :: "int \<Rightarrow> entry \<Rightarrow> bool" where
  "live t e = (case expires_at e of None \<Rightarrow> True | Some x \<Rightarrow> t < x)"

definition lookup :: "world \<Rightarrow> string \<Rightarrow> string option" where
  "lookup w k =
     (case r_cache w k of
        None \<Rightarrow> None
      | Some e \<Rightarrow> if live (clock w) e then Some (entry_value e) else None)"

definition redis_get :: "string \<Rightarrow> nat \<Rightarrow> world \<Rightarrow> (string + string option) \<times> world" where
  "redis_get k d w =
     (let w1 = emit (Cache_get k) (sleep d w) in
      case redis_down w1 of
        Some m \<Rightarrow> (Inl m, w1)
      | None \<Rightarrow> (Inr (lookup w1 k), w1))"

definition redis_set :: "string \<Rightarrow> string \<Rightarrow> nat \<Rightarrow> world \<Rightarrow> (string + unit) \<times> world" where
  "redis_set k v d w =
     (let w1 = emit (Cache_set k v) (sleep d w) in
      case redis_down w1 of
        Some m \<Rightarrow> (Inl m, w1)
      | None \<Rightarrow>
          (Inr (), w1\<lparr>r_cache := (r_cache w1)(k \<mapsto> \<lparr>entry_value = v, expires_at = None\<rparr>)\<rparr>))"

definition redis_expire :: "string \<Rightarrow> int \<Rightarrow> nat \<Rightarrow> world \<Rightarrow> (string + unit) \<times> world" where
  "redis_expire k ttl d w =
     (let w1 = emit (Cache_expire k ttl) (sleep d w) in
      case redis_down w1 of
        Some m \<Rightarrow> (Inl m, w1)
      | None \<Rightarrow>
          (case r_cache w1 k of
             None \<Rightarrow> (Inr (), w1)
           | Some e \<Rightarrow>
               if live (clock w1) e
               then (Inr (), w1\<lparr>r_cache := (r_cache w1)(k \<mapsto> e\<lparr>expires_at := Some (clock w1 + ttl)\<rparr>)\<rparr>)
               else (Inr (), w1)))"

definition redis_flushdb :: "world \<Rightarrow> (string + unit) \<times> world" where
  "redis_flushdb w =
     (let w1 = emit Cache_flushdb w in
      case redis_down w1 of
        Some m \<Rightarrow> (Inl m, w1)
      | None \<Rightarrow> (Inr (), w1\<lparr>r_cache := Map.empty\<rparr>))"

section \<open>The handlers\<close>

text \<open>
  \<^verbatim>\<open>handle_ui_errors\<close> (lines 127-146), the handler registered for \<^verbatim>\<open>InvalidUsage\<close>:
  \<open>error\<close> is \<^verbatim>\<open>exception.args[0]\<close>.
\<close>

definition handle_ui_errors ::
  "config \<Rightarrow> request \<Rightarrow> error_dict \<Rightarrow> world \<Rightarrow> (exn + response) \<times> world" where
  "handle_ui_errors cfg request error w =
     (let client_addr = remote_addr request;
          status' = err_status error in
      case map_of (json request) ''query_type'' of
        None \<Rightarrow> (Inl (KeyError ''query_type''), w)
      | Some query_type \<Rightarrow>
      case map_of (json request) ''location'' of
        None \<Rightarrow> (Inl (KeyError ''location''), w)
      | Some location \<Rightarrow>
      case map_of (json request) ''target'' of
        None \<Rightarrow> (Inl (KeyError ''target''), w)
      | Some target \<Rightarrow>
          (Inr (Json [(''output'', JStr (err_message error)),
                      (''status'', JInt status'),
                      (''keywords'', JStrs (err_keywords error))] status'),
           emit (Count_errors status' (get_reason cfg status') client_addr query_type location target) w))"

text \<open>\<^verbatim>\<open>clear_cache\<close> (lines 187-194).\<close>

definition clear_cache :: "world \<Rightarrow> (exn + string) \<times> world" where
  "clear_cache w =
     (case redis_flushdb w of
        (Inl error_exception, w1) \<Rightarrow>
          (Inl (HyperglassError (''Error clearing cache: '' @ error_exception)), w1)
      | (Inr _, w1) \<Rightarrow> (Inr ''Successfully cleared cache'', w1))"

text \<open>
  \<^verbatim>\<open>hyperglass_main\<close> (lines 213-301), part by part. First the three input checks
  (lines 224-236); a missing key makes the subscript \<^verbatim>\<open>lg_data[key]\<close> raise \<^verbatim>\<open>KeyError\<close>.
\<close>

definition validate :: "config \<Rightarrow> lg_data \<Rightarrow> exn + string \<times> string \<times> string" where
  "validate cfg lg_data =
     (case map_of lg_data ''target'' of
        None \<Rightarrow> Inl (KeyError ''target'')
      | Some target \<Rightarrow>
      if target = [] then Inl (TypeError Handle_missing (no_input cfg)) else
      case map_of lg_data ''location'' of
        None \<Rightarrow> Inl (KeyError ''location'')
      | Some location \<Rightarrow>
      if location \<notin> set (hostnames cfg) then Inl (TypeError Handle_missing (no_input cfg)) else
      case map_of lg_data ''query_type'' of
        None \<Rightarrow> Inl (KeyError ''query_type'')
      | Some query_type \<Rightarrow>
      if \<not> is_supported_query cfg query_type
      then Inl (TypeError Handle_missing (no_input cfg))
      else Inr (target, location, query_type))"

text \<open>The cache key (line 251).\<close>

definition cache_key :: "lg_data \<Rightarrow> string" where
  "cache_key lg_data = str_dict lg_data"

text \<open>The body of \<^verbatim>\<open>if not await r_cache.get(cache_key)\<close> (lines 259-288).\<close>

definition execute_and_cache ::
  "config \<Rightarrow> (lg_data \<Rightarrow> backend_result) \<Rightarrow> latency \<Rightarrow> lg_data \<Rightarrow> world \<Rightarrow> (exn + unit) \<times> world" where
  "execute_and_cache cfg Execute lat lg_data w =
     (let w1 = emit (Execute_response lg_data) (sleep (lat_execute lat) w) in
      case Execute lg_data of
        Raises kind backend_error \<Rightarrow> (Inl (InvalidUsage backend_error), w1)
      | Raises_other e \<Rightarrow> (Inl (Backend_exception e), w1)
      | Returns cache_value \<Rightarrow>
          if \<not> truthy cache_value
          then (Inl (TypeError Handle_ui_errors (request_timeout cfg)), w1)
          else
            (case redis_set (cache_key lg_data) (py_str cache_value) (lat_set lat) w1 of
               (Inl m, w2) \<Rightarrow> (Inl (RedisError m), w2)
             | (Inr _, w2) \<Rightarrow>
                 (case redis_expire (cache_key lg_data) (cache_timeout cfg) (lat_expire lat) w2 of
                    (Inl m, w3) \<Rightarrow> (Inl (RedisError m), w3)
                  | (Inr _, w3) \<Rightarrow> (Inr (), w3))))"

text \<open>The second \<^verbatim>\<open>get\<close> and the response (lines 291-301).\<close>

definition cached_response :: "latency \<Rightarrow> lg_data \<Rightarrow> world \<Rightarrow> (exn + response) \<times> world" where
  "cached_response lat lg_data w =
     (case redis_get (cache_key lg_data) (lat_fetch lat) w of
        (Inl m, w1) \<Rightarrow> (Inl (RedisError m), w1)
      | (Inr cache_response, w1) \<Rightarrow>
          (Inr (Json [(''output'', case cache_response of None \<Rightarrow> JNull | Some s \<Rightarrow> JStr s)] 200),
           w1))"

text \<open>
  The whole handler: the checks, the query counter (lines 242-244), the first \<^verbatim>\<open>get\<close>
  (line 258), the branch, the response. Logging and the timing of the backend call (lines
  262, 274, 275), which only feed the log, are left out.
\<close>

definition hyperglass_main ::
  "config \<Rightarrow> (lg_data \<Rightarrow> backend_result) \<Rightarrow> latency \<Rightarrow> request \<Rightarrow> world \<Rightarrow> (exn + response) \<times> world" where
  "hyperglass_main cfg Execute lat request w =
     (let lg_data = json request in
      case validate cfg lg_data of
        Inl e \<Rightarrow> (Inl e, w)
      | Inr (target, location, query_type) \<Rightarrow>
          (let client_addr = remote_addr request;
               w1 = emit (Count_data client_addr query_type location target) w in
           case redis_get (cache_key lg_data) (lat_check lat) w1 of
             (Inl m, w2) \<Rightarrow> (Inl (RedisError m), w2)
           | (Inr cached, w2) \<Rightarrow>
               if \<not> truthy_opt cached then
                 (case execute_and_cache cfg Execute lat lg_data w2 of
                    (Inl e, w3) \<Rightarrow> (Inl e, w3)
                  | (Inr _, w3) \<Rightarrow> cached_response lat lg_data w3)
               else cached_response lat lg_data w2))"

text \<open>
  The route \<^verbatim>\<open>POST /query\<close> as the application serves it: an \<^verbatim>\<open>InvalidUsage\<close> raised by
  \<^verbatim>\<open>hyperglass_main\<close> goes to the handler registered for it with
  \<^verbatim>\<open>@app.exception(InvalidUsage)\<close>; no handler of this module is registered for the other
  exceptions of \<open>exn\<close>, which are left to the framework. (The rate limiter in front of the route
  is not modelled.)
\<close>

definition query_route ::
  "config \<Rightarrow> (lg_data \<Rightarrow> backend_result) \<Rightarrow> latency \<Rightarrow> request \<Rightarrow> world \<Rightarrow> (exn + response) \<times> world" where
  "query_route cfg Execute lat request w =
     (case hyperglass_main cfg Execute lat request w of
        (Inl e, w1) \<Rightarrow>
          (case e of
             InvalidUsage error \<Rightarrow> handle_ui_errors cfg request error w1
           | _ \<Rightarrow> (Inl e, w1))
      | (Inr r, w1) \<Rightarrow> (Inr r, w1))"


fun is_backend_call :: "event \<Rightarrow> bool" where
  "is_backend_call (Execute_response d) = True"
| "is_backend_call _ = False"

section \<open>A concrete deployment\<close>

text \<open>
  Two devices, the query types of the looking glass, a cache timeout of 120 seconds; a request for
  the BGP route of 8.8.8.8 on router1; a backend that answers after two seconds.
\<close>

definition example_config :: config where
  "example_config =
     \<lparr>hostnames = [''router1'', ''router2''],
      is_supported_query =
        (\<lambda>q. q \<in> set [''bgp_route'', ''bgp_community'', ''bgp_aspath'', ''ping'', ''traceroute'']),
      no_input = ''No input specified'',
      request_timeout = ''Request timed out'',
      cache_timeout = 120,
      get_reason = (\<lambda>c. if c = 401 then ''Unauthorized'' else ''Error'')\<rparr>"

definition example_request :: request where
  "example_request =
     \<lparr>json = [(''target'', ''8.8.8.8''), (''location'', ''router1''), (''query_type'', ''bgp_route'')],
      remote_addr = ''192.0.2.1''\<rparr>"

definition example_latency :: latency where
  "example_latency = \<lparr>lat_check = 0, lat_execute = 2, lat_set = 0, lat_expire = 0, lat_fetch = 0\<rparr>"

definition example_world :: world where
  "example_world = \<lparr>clock = 0, r_cache = Map.empty, redis_down = None, trace = []\<rparr>"

definition example_backend :: "lg_data \<Rightarrow> backend_result" where
  "example_backend d = Returns (PyStr ''BGP routing table entry for 8.8.8.0/24'')"

definition example_auth_failure :: "lg_data \<Rightarrow> backend_result" where
  "example_auth_failure d =
     Raises AuthError
       \<lparr>err_message = ''Authentication failed'', err_status = 401, err_keywords = [''router1'']\<rparr>"

text \<open>The world after the example request was served once from the empty cache.\<close>

definition example_world_cached :: world where
  "example_world_cached =
     \<lparr>clock = 2,
      r_cache = Map.empty(cache_key (json example_request) \<mapsto>
        \<lparr>entry_value = ''BGP routing table entry for 8.8.8.0/24'', expires_at = Some 122\<rparr>),
      redis_down = None,
      trace = [Count_data ''192.0.2.1'' ''bgp_route'' ''router1'' ''8.8.8.8'',
               Cache_get (cache_key (json example_request)),
               Execute_response (json example_request),
               Cache_set (cache_key (json example_request)) ''BGP routing table entry for 8.8.8.0/24'',
               Cache_expire (cache_key (json example_request)) 120,
               Cache_get (cache_key (json example_request))]\<rparr>"

section \<open>The serialization can be read back\<close>

lemma unhex_hexdigit_all: "\<forall>n\<in>{0..<16}. unhex (hexdigit n) = n"
  by code_simp

lemma unhex_hexdigit: "n < 16 \<Longrightarrow> unhex (hexdigit n) = n"
  using unhex_hexdigit_all by simp

lemma hex_roundtrip:
  "char_of (16 * unhex (hexdigit (of_char c div 16)) + unhex (hexdigit (of_char c mod 16))) = c"
proof -
  have "(of_char c :: nat) < 256" by simp
  then have "(of_char c :: nat) div 16 < 16" by arith
  then show ?thesis by (simp add: unhex_hexdigit)
qed

lemma scan_escape:
  assumes "q = sq \<or> q = dq"
  shows "scan q (escape q c @ rest) = map_option (apfst ((#) c)) (scan q rest)"
  using assms hex_roundtrip [of c]
  by (auto simp: escape_def sq_def dq_def bs_def)

lemma scan_body:
  assumes "q = sq \<or> q = dq"
  shows "scan q (concat (map (escape q) s) @ q # rest) = Some (s, rest)"
proof (induction s)
  case Nil
  show ?case by simp
next
  case (Cons c s)
  show ?case using Cons.IH by (simp add: scan_escape [OF assms])
qed

lemma quote_of_cases: "quote_of s = sq \<or> quote_of s = dq"
  by (simp add: quote_of_def)

text \<open>No \<open>py_repr\<close> is a proper prefix of another: what follows a quoted string is determined.\<close>

lemma py_repr_prefix_free:
  assumes "py_repr a @ r = py_repr b @ r'"
  shows "a = b \<and> r = r'"
proof -
  let ?q = "quote_of a"
  from assms have q: "quote_of b = ?q"
    by (simp add: py_repr_def Let_def)
  from assms q have
    "concat (map (escape ?q) a) @ ?q # r = concat (map (escape ?q) b) @ ?q # r'"
    by (simp add: py_repr_def Let_def)
  then have "scan ?q (concat (map (escape ?q) a) @ ?q # r)
    = scan ?q (concat (map (escape ?q) b) @ ?q # r')"
    by simp
  then show ?thesis
    by (simp add: scan_body [OF quote_of_cases])
qed

lemma py_repr_not_brace: "py_repr s @ r \<noteq> CHR ''}'' # r'"
  by (simp add: py_repr_def Let_def quote_of_def sq_def dq_def)

lemma dict_items_Cons:
  "dict_items ((k, v) # kvs) @ CHR ''}'' # r =
     py_repr k @ '': '' @ py_repr v @
       (if kvs = [] then CHR ''}'' # r else '', '' @ dict_items kvs @ CHR ''}'' # r)"
  by (cases kvs) auto

lemma dict_items_inj:
  "dict_items d1 @ CHR ''}'' # r = dict_items d2 @ CHR ''}'' # r' \<Longrightarrow> d1 = d2 \<and> r = r'"
proof (induction d1 arbitrary: d2)
  case Nil
  show ?case
  proof (cases d2)
    case Nil
    with Nil.prems show ?thesis by simp
  next
    case (Cons kv kvs)
    obtain k v where kv: "kv = (k, v)" by (cases kv)
    from Nil.prems have "py_repr k @ ('': '' @ py_repr v @
       (if kvs = [] then CHR ''}'' # r' else '', '' @ dict_items kvs @ CHR ''}'' # r')) = CHR ''}'' # r"
      unfolding Cons kv dict_items_Cons by simp
    then show ?thesis by (simp only: py_repr_not_brace)
  qed
next
  case (Cons kv1 t1)
  obtain k1 v1 where kv1: "kv1 = (k1, v1)" by (cases kv1)
  show ?case
  proof (cases d2)
    case Nil
    from Cons.prems have "py_repr k1 @ ('': '' @ py_repr v1 @
       (if t1 = [] then CHR ''}'' # r else '', '' @ dict_items t1 @ CHR ''}'' # r)) = CHR ''}'' # r'"
      unfolding Nil kv1 dict_items_Cons by simp
    then show ?thesis by (simp only: py_repr_not_brace)
  next
    case (Cons kv2 t2)
    obtain k2 v2 where kv2: "kv2 = (k2, v2)" by (cases kv2)
    let ?T1 = "if t1 = [] then CHR ''}'' # r else '', '' @ dict_items t1 @ CHR ''}'' # r"
    let ?T2 = "if t2 = [] then CHR ''}'' # r' else '', '' @ dict_items t2 @ CHR ''}'' # r'"
    from Cons.prems have eq:
      "py_repr k1 @ ('': '' @ py_repr v1 @ ?T1) = py_repr k2 @ ('': '' @ py_repr v2 @ ?T2)"
      unfolding Cons kv1 kv2 dict_items_Cons by simp
    from py_repr_prefix_free [OF eq] have k: "k1 = k2"
      and eq2: "py_repr v1 @ ?T1 = py_repr v2 @ ?T2" by simp_all
    from py_repr_prefix_free [OF eq2] have v: "v1 = v2" and tl: "?T1 = ?T2" by simp_all
    from tl have "t1 = t2 \<and> r = r'"
      using Cons.IH [of t2] by (auto split: if_splits)
    with k v show ?thesis by (simp add: Cons kv1 kv2)
  qed
qed

lemma str_dict_inj: "str_dict d1 = str_dict d2 \<longleftrightarrow> d1 = d2"
  using dict_items_inj [of d1 "[]" d2 "[]"] by (auto simp: str_dict_def)

section \<open>Truthy results have a non-empty string form\<close>

lemma digits_nonempty: "digits n \<noteq> []"
  by (subst digits.simps) simp

lemma py_str_nonempty: "truthy v \<Longrightarrow> py_str v \<noteq> []"
  by (cases v) (auto simp: py_str_def str_int_def digits_nonempty split: list.splits)

section \<open>The store and the steps of the handler\<close>

lemmas store_defs = redis_get_def redis_set_def redis_expire_def redis_flushdb_def
  sleep_def emit_def lookup_def live_def Let_def

lemma redis_down_emit [simp]: "redis_down (emit e w) = redis_down w"
  by (simp add: emit_def)

lemma redis_down_sleep [simp]: "redis_down (sleep d w) = redis_down w"
  by (simp add: sleep_def)

lemma r_cache_emit [simp]: "r_cache (emit e w) = r_cache w"
  by (simp add: emit_def)

lemma r_cache_sleep [simp]: "r_cache (sleep d w) = r_cache w"
  by (simp add: sleep_def)

lemma clock_emit [simp]: "clock (emit e w) = clock w"
  by (simp add: emit_def)

lemma clock_sleep [simp]: "clock (sleep d w) = clock w + int d"
  by (simp add: sleep_def)

lemma trace_emit [simp]: "trace (emit e w) = trace w @ [e]"
  by (simp add: emit_def)

lemma trace_sleep [simp]: "trace (sleep d w) = trace w"
  by (simp add: sleep_def)

lemma lookup_emit [simp]: "lookup (emit e w) k = lookup w k"
  by (simp add: lookup_def split: option.splits)

lemma lookup_sleep_emit [simp]: "lookup (sleep d (emit e w)) k = lookup (sleep d w) k"
  by (simp add: lookup_def split: option.splits)

lemma live_mono: "live t' e \<Longrightarrow> t \<le> t' \<Longrightarrow> live t e"
  by (auto simp: live_def split: option.splits)

lemma redis_get_up:
  "redis_down w = None \<Longrightarrow>
   redis_get k d w = (Inr (lookup (sleep d w) k), emit (Cache_get k) (sleep d w))"
  by (simp add: redis_get_def Let_def)

lemma redis_get_down:
  "redis_down w = Some m \<Longrightarrow> redis_get k d w = (Inl m, emit (Cache_get k) (sleep d w))"
  by (simp add: redis_get_def Let_def)

lemma validate_fields:
  assumes "validate cfg d = Inr (t, l, q)"
  shows "map_of d ''target'' = Some t" and "map_of d ''location'' = Some l"
    and "map_of d ''query_type'' = Some q"
    and "t \<noteq> []" and "l \<in> set (hostnames cfg)" and "is_supported_query cfg q"
  using assms by (auto simp: validate_def split: option.splits if_splits)

lemma cached_response_up:
  "redis_down w = None \<Longrightarrow>
   cached_response lat d w =
     (Inr (Json [(''output'', case lookup (sleep (lat_fetch lat) w) (cache_key d) of
                               None \<Rightarrow> JNull | Some s \<Rightarrow> JStr s)] 200),
      emit (Cache_get (cache_key d)) (sleep (lat_fetch lat) w))"
  by (simp add: cached_response_def redis_get_up)

lemma cached_response_Inr:
  assumes "cached_response lat d w = (Inr resp, w')"
  shows "resp = Json [(''output'', case lookup w' (cache_key d) of None \<Rightarrow> JNull | Some s \<Rightarrow> JStr s)] 200"
    and "trace w' = trace w @ [Cache_get (cache_key d)]"
  using assms
  by (auto simp: cached_response_def redis_get_def Let_def split: option.splits)

lemma cached_response_trace:
  "trace (snd (cached_response lat d w)) = trace w @ [Cache_get (cache_key d)]"
  by (auto simp: cached_response_def redis_get_def Let_def split: option.splits)

text \<open>A valid request with the store up: the counter, the first \<^verbatim>\<open>get\<close>, then the branch.\<close>

lemma hyperglass_main_valid:
  assumes "validate cfg (json request) = Inr (t, l, q)" and "redis_down w = None"
  shows "hyperglass_main cfg Execute lat request w =
     (let w2 = emit (Cache_get (cache_key (json request)))
                 (sleep (lat_check lat) (emit (Count_data (remote_addr request) q l t) w)) in
      if \<not> truthy_opt (lookup (sleep (lat_check lat) w) (cache_key (json request))) then
        (case execute_and_cache cfg Execute lat (json request) w2 of
           (Inl e, w3) \<Rightarrow> (Inl e, w3)
         | (Inr _, w3) \<Rightarrow> cached_response lat (json request) w3)
      else cached_response lat (json request) w2)"
  using assms by (simp add: hyperglass_main_def Let_def redis_get_up)

lemma execute_and_cache_returns:
  assumes "Execute d = Returns v" and "truthy v" and "redis_down w = None"
  shows "execute_and_cache cfg Execute lat d w =
     (Inr (),
      \<lparr>clock = clock w + int (lat_execute lat) + int (lat_set lat) + int (lat_expire lat),
       r_cache = (r_cache w)(cache_key d \<mapsto>
          \<lparr>entry_value = py_str v,
           expires_at = Some (clock w + int (lat_execute lat) + int (lat_set lat) + int (lat_expire lat)
                              + cache_timeout cfg)\<rparr>),
       redis_down = None,
       trace = trace w @ [Execute_response d, Cache_set (cache_key d) (py_str v),
                          Cache_expire (cache_key d) (cache_timeout cfg)]\<rparr>)"
  using assms by (simp add: execute_and_cache_def store_defs)

lemma execute_and_cache_trace:
  "\<exists>evs. trace (snd (execute_and_cache cfg Execute lat d w)) = trace w @ Execute_response d # evs"
  by (auto simp: execute_and_cache_def store_defs split: backend_result.splits option.splits)

text \<open>A miss always reaches the backend: the call follows the first \<^verbatim>\<open>get\<close> in the trace.\<close>

lemma miss_dispatches:
  assumes valid: "validate cfg (json request) = Inr (t, l, q)"
    and up: "redis_down w = None"
    and miss: "\<not> truthy_opt (lookup (sleep (lat_check lat) w) (cache_key (json request)))"
  shows "\<exists>evs. trace (snd (hyperglass_main cfg Execute lat request w)) =
           trace w @ [Count_data (remote_addr request) q l t,
                      Cache_get (cache_key (json request)),
                      Execute_response (json request)] @ evs"
proof -
  let ?w2 = "emit (Cache_get (cache_key (json request)))
               (sleep (lat_check lat) (emit (Count_data (remote_addr request) q l t) w))"
  obtain r w3 where ex: "execute_and_cache cfg Execute lat (json request) ?w2 = (r, w3)"
    by (cases "execute_and_cache cfg Execute lat (json request) ?w2")
  from execute_and_cache_trace [of cfg Execute lat "json request" ?w2] ex
  obtain evs where tr: "trace w3 = trace ?w2 @ Execute_response (json request) # evs"
    by auto
  show ?thesis
  proof (cases r)
    case (Inl e)
    with miss ex tr show ?thesis
      by (simp add: hyperglass_main_valid [OF valid up] Let_def)
  next
    case (Inr u)
    with miss ex tr show ?thesis
      by (simp add: hyperglass_main_valid [OF valid up] Let_def cached_response_trace)
  qed
qed

text \<open>A miss answered with a truthy result: the whole run, with the world it leaves.\<close>

lemma miss_stored:
  assumes valid: "validate cfg (json request) = Inr (t, l, q)"
    and up: "redis_down w = None"
    and miss: "\<not> truthy_opt (lookup (sleep (lat_check lat) w) (cache_key (json request)))"
    and returns: "Execute (json request) = Returns v"
    and truthy: "truthy v"
  shows "hyperglass_main cfg Execute lat request w =
     (Inr (Json [(''output'', if int (lat_fetch lat) < cache_timeout cfg then JStr (py_str v) else JNull)] 200),
      \<lparr>clock = clock w + int (lat_check lat) + int (lat_execute lat) + int (lat_set lat)
                 + int (lat_expire lat) + int (lat_fetch lat),
       r_cache = (r_cache w)(cache_key (json request) \<mapsto>
          \<lparr>entry_value = py_str v,
           expires_at = Some (clock w + int (lat_check lat) + int (lat_execute lat) + int (lat_set lat)
                              + int (lat_expire lat) + cache_timeout cfg)\<rparr>),
       redis_down = None,
       trace = trace w @ [Count_data (remote_addr request) q l t,
                          Cache_get (cache_key (json request)),
                          Execute_response (json request),
                          Cache_set (cache_key (json request)) (py_str v),
                          Cache_expire (cache_key (json request)) (cache_timeout cfg),
                          Cache_get (cache_key (json request))]\<rparr>)"
  using miss up
  by (simp add: hyperglass_main_valid [OF valid up] Let_def
      execute_and_cache_returns [where Execute = Execute and d = "json request", OF returns truthy]
      cached_response_up lookup_def live_def sleep_def emit_def)

lemma success_reads_cache:
  assumes "hyperglass_main cfg Execute lat request w = (Inr resp, w')"
  shows "resp = Json [(''output'', case lookup w' (cache_key (json request)) of
                                    None \<Rightarrow> JNull | Some s \<Rightarrow> JStr s)] 200
       \<and> (\<exists>evs. trace w' = evs @ [Cache_get (cache_key (json request))])"
proof -
  from assms obtain w0 where "cached_response lat (json request) w0 = (Inr resp, w')"
    by (auto simp: hyperglass_main_def Let_def split: sum.splits prod.splits if_splits)
  from cached_response_Inr [OF this] show ?thesis by simp
qed

text \<open>
  What a run does to the store: nothing, or one entry under the request's key that holds the
  string form of a truthy backend result. So the route never stores an empty value.
\<close>

lemma hyperglass_main_r_cache:
  "r_cache (snd (hyperglass_main cfg Execute lat request w)) = r_cache w \<or>
   (\<exists>v x. truthy v \<and> Execute (json request) = Returns v \<and>
      r_cache (snd (hyperglass_main cfg Execute lat request w)) =
        (r_cache w)(cache_key (json request) \<mapsto> \<lparr>entry_value = py_str v, expires_at = x\<rparr>))"
proof (cases "validate cfg (json request)")
  case (Inl e)
  then show ?thesis
    by (simp add: hyperglass_main_def)
next
  case (Inr tlq)
  obtain t l q where tlq: "tlq = (t, l, q)" by (cases tlq)
  note valid = Inr [unfolded tlq]
  show ?thesis
  proof (cases "redis_down w")
    case (Some m)
    with valid show ?thesis
      by (simp add: hyperglass_main_def redis_get_down Let_def)
  next
    case None
    note up = None
    let ?key = "cache_key (json request)"
    let ?w2 = "emit (Cache_get ?key) (sleep (lat_check lat) (emit (Count_data (remote_addr request) q l t) w))"
    have up2: "redis_down ?w2 = None" using up by simp
    show ?thesis
    proof (cases "truthy_opt (lookup (sleep (lat_check lat) w) ?key)")
      case True
      then show ?thesis
        by (simp add: hyperglass_main_valid [OF valid up] Let_def cached_response_up [OF up2])
    next
      case False
      note miss = False
      show ?thesis
      proof (cases "Execute (json request)")
        case (Returns v)
        show ?thesis
        proof (cases "truthy v")
          case True
          have "r_cache (snd (hyperglass_main cfg Execute lat request w)) =
              (r_cache w)(?key \<mapsto> \<lparr>entry_value = py_str v,
                 expires_at = Some (clock w + int (lat_check lat) + int (lat_execute lat)
                   + int (lat_set lat) + int (lat_expire lat) + cache_timeout cfg)\<rparr>)"
            by (simp add: miss_stored [where Execute = Execute, OF valid up miss Returns True])
          with True Returns show ?thesis
            by blast
        next
          case False
          with miss Returns show ?thesis
            by (simp add: hyperglass_main_valid [OF valid up] Let_def execute_and_cache_def)
        qed
      next
        case (Raises kind err)
        with miss show ?thesis
          by (simp add: hyperglass_main_valid [OF valid up] Let_def execute_and_cache_def)
      next
        case (Raises_other e)
        with miss show ?thesis
          by (simp add: hyperglass_main_valid [OF valid up] Let_def execute_and_cache_def)
      qed
    qed
  qed
qed

lemma handle_ui_errors_r_cache:
  "r_cache (snd (handle_ui_errors cfg request err w)) = r_cache w"
  by (simp add: handle_ui_errors_def Let_def split: option.splits)

lemma query_route_r_cache:
  "r_cache (snd (query_route cfg Execute lat request w)) =
   r_cache (snd (hyperglass_main cfg Execute lat request w))"
  by (simp add: query_route_def handle_ui_errors_r_cache split: prod.splits sum.splits exn.splits)

lemma stored_values_nonempty:
  assumes "\<forall>k e. r_cache w k = Some e \<longrightarrow> entry_value e \<noteq> []"
  shows "\<forall>k e. r_cache (snd (query_route cfg Execute lat request w)) k = Some e \<longrightarrow> entry_value e \<noteq> []"
proof (intro allI impI)
  fix k e
  assume e: "r_cache (snd (query_route cfg Execute lat request w)) k = Some e"
  from hyperglass_main_r_cache [of cfg Execute lat request w]
  show "entry_value e \<noteq> []"
  proof
    assume "r_cache (snd (hyperglass_main cfg Execute lat request w)) = r_cache w"
    with e assms show ?thesis by (simp add: query_route_r_cache)
  next
    assume "\<exists>v x. truthy v \<and> Execute (json request) = Returns v \<and>
      r_cache (snd (hyperglass_main cfg Execute lat request w)) =
        (r_cache w)(cache_key (json request) \<mapsto> \<lparr>entry_value = py_str v, expires_at = x\<rparr>)"
    then obtain v x where "truthy v"
      and "r_cache (snd (hyperglass_main cfg Execute lat request w)) =
        (r_cache w)(cache_key (json request) \<mapsto> \<lparr>entry_value = py_str v, expires_at = x\<rparr>)"
      by blast
    with e assms py_str_nonempty [of v] show ?thesis
      by (auto simp: query_route_r_cache split: if_splits)
  qed
qed

text \<open>The example deployment.\<close>

lemma example_valid:
  "validate example_config (json example_request) = Inr (''8.8.8.8'', ''router1'', ''bgp_route'')"
  by (simp add: validate_def example_config_def example_request_def)

lemma example_first_request:
  "hyperglass_main example_config example_backend example_latency example_request example_world =
     (Inr (Json [(''output'', JStr ''BGP routing table entry for 8.8.8.0/24'')] 200),
      example_world_cached)"
proof -
  have up: "redis_down example_world = None"
    by (simp add: example_world_def)
  have miss: "\<not> truthy_opt (lookup (sleep (lat_check example_latency) example_world)
                  (cache_key (json example_request)))"
    by (simp add: example_world_def lookup_def truthy_opt_def)
  have returns: "example_backend (json example_request) =
      Returns (PyStr ''BGP routing table entry for 8.8.8.0/24'')"
    by (simp add: example_backend_def)
  have addr: "remote_addr example_request = ''192.0.2.1''"
    by (simp add: example_request_def)
  show ?thesis
    unfolding miss_stored [where Execute = example_backend, OF example_valid up miss returns, simplified]
    by (simp add: example_world_cached_def example_world_def example_latency_def
        example_config_def py_str_def addr)
qed

section \<open>The claims\<close>

subsection \<open>Cache hit\<close>

text \<open>
  Claim C1. For every valid request whose cache key is present in the store with an entry that
  has not expired when the handler fetches it, the handler returns the cached value as the
  output with status 200, and the backend is not called: the run adds to the trace the query
  counter and the two \<^verbatim>\<open>get\<close> commands and nothing else, for every backend \<open>Execute\<close>. The
  store is left as it was, so every further identical request inside the entry's lifetime
  returns the same bytes. (The entry's value is not empty, as every value the route stores:
  \<open>stored_values_nonempty\<close>. The check \<^verbatim>\<open>if not await r_cache.get(cache_key)\<close> takes an
  empty value for a miss.)
\<close>

theorem cache_hit_returns_cached_value:
  assumes valid: "validate cfg (json request) = Inr (t, l, q)"
    and up: "redis_down w = None"
    and present: "r_cache w (cache_key (json request)) = Some e"
    and nonempty: "entry_value e \<noteq> []"
    and unexpired: "live (clock w + int (lat_check lat) + int (lat_fetch lat)) e"
  shows "hyperglass_main cfg Execute lat request w =
      (Inr (Json [(''output'', JStr (entry_value e))] 200),
       w\<lparr>clock := clock w + int (lat_check lat) + int (lat_fetch lat),
         trace := trace w @ [Count_data (remote_addr request) q l t,
                             Cache_get (cache_key (json request)),
                             Cache_get (cache_key (json request))]\<rparr>)"
proof -
  have "live (clock w + int (lat_check lat)) e"
    using unexpired by (rule live_mono) simp
  with present
  have hit: "lookup (sleep (lat_check lat) w) (cache_key (json request)) = Some (entry_value e)"
    by (simp add: lookup_def)
  show ?thesis
    using up present nonempty unexpired hit
    by (simp add: hyperglass_main_valid [OF valid up] cached_response_up truthy_opt_def Let_def
        lookup_def sleep_def emit_def)
qed

text \<open>
  The example request a second time, 60 seconds after the first run filled the cache
  (\<open>example_first_request\<close>), with a backend that would fail if it were called: the output is
  the one of the first run, and the trace still holds the single backend call of the first run.
\<close>

theorem cache_hit_returns_cached_value_witness:
  "fst (hyperglass_main example_config (\<lambda>d. Raises_other ''unreachable'') example_latency
          example_request (sleep 60 example_world_cached))
     = fst (hyperglass_main example_config example_backend example_latency example_request
              example_world)
   \<and> fst (hyperglass_main example_config (\<lambda>d. Raises_other ''unreachable'') example_latency
          example_request (sleep 60 example_world_cached))
     = Inr (Json [(''output'', JStr ''BGP routing table entry for 8.8.8.0/24'')] 200)
   \<and> filter is_backend_call
        (trace (snd (hyperglass_main example_config (\<lambda>d. Raises_other ''unreachable'')
           example_latency example_request (sleep 60 example_world_cached))))
     = [Execute_response (json example_request)]"
proof -
  let ?e = "\<lparr>entry_value = ''BGP routing table entry for 8.8.8.0/24'', expires_at = Some 122\<rparr>"
  have up: "redis_down (sleep 60 example_world_cached) = None"
    by (simp add: example_world_cached_def sleep_def)
  have present: "r_cache (sleep 60 example_world_cached) (cache_key (json example_request)) = Some ?e"
    by (simp add: example_world_cached_def sleep_def)
  have nonempty: "entry_value ?e \<noteq> []"
    by simp
  have unexpired: "live (clock (sleep 60 example_world_cached) + int (lat_check example_latency)
      + int (lat_fetch example_latency)) ?e"
    by (simp add: example_world_cached_def example_latency_def sleep_def live_def)
  show ?thesis
    unfolding cache_hit_returns_cached_value [OF example_valid up present nonempty unexpired]
      example_first_request
    by (simp add: example_world_cached_def sleep_def)
qed

subsection \<open>Expiry between the two reads\<close>

text \<open>
  Claim C10. The result of the final \<^verbatim>\<open>get\<close> is not checked. For every valid request whose
  entry is present (and not empty) when the handler checks the cache and has expired when the
  handler fetches the value, the handler returns status 200 with a null output; it raises no
  error and does not call the backend.
\<close>

theorem stale_fetch_returns_null:
  assumes valid: "validate cfg (json request) = Inr (t, l, q)"
    and up: "redis_down w = None"
    and present: "r_cache w (cache_key (json request)) = Some e"
    and nonempty: "entry_value e \<noteq> []"
    and live_check: "live (clock w + int (lat_check lat)) e"
    and dead_fetch: "\<not> live (clock w + int (lat_check lat) + int (lat_fetch lat)) e"
  shows "hyperglass_main cfg Execute lat request w =
      (Inr (Json [(''output'', JNull)] 200),
       w\<lparr>clock := clock w + int (lat_check lat) + int (lat_fetch lat),
         trace := trace w @ [Count_data (remote_addr request) q l t,
                             Cache_get (cache_key (json request)),
                             Cache_get (cache_key (json request))]\<rparr>)"
proof -
  have hit: "lookup (sleep (lat_check lat) w) (cache_key (json request)) = Some (entry_value e)"
    using present live_check by (simp add: lookup_def)
  show ?thesis
    using up present nonempty dead_fetch hit
    by (simp add: hyperglass_main_valid [OF valid up] cached_response_up truthy_opt_def Let_def
        lookup_def sleep_def emit_def)
qed

text \<open>
  The example entry ends at time 122. A request that arrives at 121 and whose second
  \<^verbatim>\<open>get\<close> is served one second later finds the entry at the check and not at the fetch.
\<close>

theorem stale_fetch_returns_null_witness:
  "lookup (sleep 119 example_world_cached) (cache_key (json example_request))
     = Some ''BGP routing table entry for 8.8.8.0/24''
   \<and> fst (hyperglass_main example_config example_backend (example_latency\<lparr>lat_fetch := 1\<rparr>)
          example_request (sleep 119 example_world_cached))
     = Inr (Json [(''output'', JNull)] 200)
   \<and> filter is_backend_call
        (trace (snd (hyperglass_main example_config example_backend (example_latency\<lparr>lat_fetch := 1\<rparr>)
           example_request (sleep 119 example_world_cached))))
     = [Execute_response (json example_request)]"
proof -
  let ?e = "\<lparr>entry_value = ''BGP routing table entry for 8.8.8.0/24'', expires_at = Some 122\<rparr>"
  let ?lat = "example_latency\<lparr>lat_fetch := 1\<rparr>"
  have up: "redis_down (sleep 119 example_world_cached) = None"
    by (simp add: example_world_cached_def sleep_def)
  have present: "r_cache (sleep 119 example_world_cached) (cache_key (json example_request)) = Some ?e"
    by (simp add: example_world_cached_def sleep_def)
  have nonempty: "entry_value ?e \<noteq> []"
    by simp
  have live_check: "live (clock (sleep 119 example_world_cached) + int (lat_check ?lat)) ?e"
    by (simp add: example_world_cached_def example_latency_def sleep_def live_def)
  have dead_fetch: "\<not> live (clock (sleep 119 example_world_cached) + int (lat_check ?lat)
      + int (lat_fetch ?lat)) ?e"
    by (simp add: example_world_cached_def example_latency_def sleep_def live_def)
  have found: "lookup (sleep 119 example_world_cached) (cache_key (json example_request))
     = Some ''BGP routing table entry for 8.8.8.0/24''"
    by (simp add: example_world_cached_def sleep_def lookup_def live_def)
  show ?thesis
    unfolding stale_fetch_returns_null [OF example_valid up present nonempty live_check dead_fetch]
    using found by (simp add: example_world_cached_def sleep_def)
qed

subsection \<open>Typed backend failures\<close>

text \<open>
  Claim C4. For every valid request on a cache miss where the backend raises one of the typed
  failures (\<^verbatim>\<open>AuthError\<close>, \<^verbatim>\<open>RestError\<close>, \<^verbatim>\<open>ScrapeError\<close>, \<^verbatim>\<open>InputInvalid\<close>,
  \<^verbatim>\<open>InputNotAllowed\<close>), the route answers with the body
  \<^verbatim>\<open>{output: message, status: code, keywords: [...]}\<close> built from the dictionary of the
  failure, with the HTTP status equal to that code. No cache entry is written: the world after
  the run differs from the one before in its clock and its trace only, and the trace gains the
  query counter, the \<^verbatim>\<open>get\<close>, the backend call and the error counter.
\<close>

theorem backend_error_response:
  assumes valid: "validate cfg (json request) = Inr (t, l, q)"
    and up: "redis_down w = None"
    and miss: "\<not> truthy_opt (lookup (sleep (lat_check lat) w) (cache_key (json request)))"
    and raises: "Execute (json request) = Raises kind err"
  shows "query_route cfg Execute lat request w =
      (Inr (Json [(''output'', JStr (err_message err)),
                  (''status'', JInt (err_status err)),
                  (''keywords'', JStrs (err_keywords err))] (err_status err)),
       w\<lparr>clock := clock w + int (lat_check lat) + int (lat_execute lat),
         trace := trace w @ [Count_data (remote_addr request) q l t,
                             Cache_get (cache_key (json request)),
                             Execute_response (json request),
                             Count_errors (err_status err) (get_reason cfg (err_status err))
                               (remote_addr request) q l t]\<rparr>)"
  using miss raises validate_fields(1-3) [OF valid]
  by (simp add: query_route_def hyperglass_main_valid [OF valid up] execute_and_cache_def
      handle_ui_errors_def Let_def sleep_def emit_def)

theorem backend_error_response_witness:
  "fst (query_route example_config example_auth_failure example_latency example_request example_world)
     = Inr (Json [(''output'', JStr ''Authentication failed''),
                  (''status'', JInt 401),
                  (''keywords'', JStrs [''router1''])] 401)
   \<and> r_cache (snd (query_route example_config example_auth_failure example_latency example_request
                      example_world)) = Map.empty"
proof -
  have up: "redis_down example_world = None"
    by (simp add: example_world_def)
  have miss: "\<not> truthy_opt (lookup (sleep (lat_check example_latency) example_world)
                  (cache_key (json example_request)))"
    by (simp add: example_world_def lookup_def truthy_opt_def)
  have raises: "example_auth_failure (json example_request) =
      Raises AuthError
        \<lparr>err_message = ''Authentication failed'', err_status = 401, err_keywords = [''router1'']\<rparr>"
    by (simp add: example_auth_failure_def)
  show ?thesis
    unfolding backend_error_response [where Execute = example_auth_failure,
        OF example_valid up miss raises]
    by (simp add: example_world_def)
qed

subsection \<open>Empty backend result\<close>

text \<open>
  Claim C3, as far as the code goes. For every valid request on a cache miss where the backend
  returns a falsy result without raising, the handler writes no cache entry and returns no success
  response. It does not produce a request-timeout response either: line 278 is
  \<^verbatim>\<open>raise handle_ui_errors(request, params.messages.request_timeout)\<close>, the operand is the
  coroutine of an \<^verbatim>\<open>async def\<close> and not an exception, so the statement fails with
  \<^verbatim>\<open>TypeError\<close>; no handler of the module is registered for it, and the body of
  \<^verbatim>\<open>handle_ui_errors\<close> (the error counter, the JSON body) never runs.
\<close>

theorem empty_result_raises_type_error:
  assumes valid: "validate cfg (json request) = Inr (t, l, q)"
    and up: "redis_down w = None"
    and miss: "\<not> truthy_opt (lookup (sleep (lat_check lat) w) (cache_key (json request)))"
    and returns: "Execute (json request) = Returns v"
    and falsy: "\<not> truthy v"
  shows "query_route cfg Execute lat request w =
      (Inl (TypeError Handle_ui_errors (request_timeout cfg)),
       w\<lparr>clock := clock w + int (lat_check lat) + int (lat_execute lat),
         trace := trace w @ [Count_data (remote_addr request) q l t,
                             Cache_get (cache_key (json request)),
                             Execute_response (json request)]\<rparr>)"
  using miss returns falsy
  by (simp add: query_route_def hyperglass_main_valid [OF valid up] execute_and_cache_def
      Let_def sleep_def emit_def)

theorem empty_result_raises_type_error_witness:
  "fst (query_route example_config (\<lambda>d. Returns (PyStr [])) example_latency example_request
          example_world)
     = Inl (TypeError Handle_ui_errors ''Request timed out'')
   \<and> r_cache (snd (query_route example_config (\<lambda>d. Returns (PyStr [])) example_latency
                      example_request example_world)) = Map.empty"
proof -
  have up: "redis_down example_world = None"
    by (simp add: example_world_def)
  have miss: "\<not> truthy_opt (lookup (sleep (lat_check example_latency) example_world)
                  (cache_key (json example_request)))"
    by (simp add: example_world_def lookup_def truthy_opt_def)
  have returns: "(\<lambda>d. Returns (PyStr [])) (json example_request) = Returns (PyStr [])"
    by simp
  have falsy: "\<not> truthy (PyStr [])"
    by simp
  show ?thesis
    unfolding empty_result_raises_type_error [where Execute = "\<lambda>d. Returns (PyStr [])",
        OF example_valid up miss returns falsy]
    by (simp add: example_world_def example_config_def)
qed

subsection \<open>Invalid requests\<close>

text \<open>
  Claim C2, as far as the code goes. For every request (with the three fields present) whose
  target is empty, or whose location is not a configured device, or whose query type is not
  supported, the handler stops at the failing check: the world is unchanged, so no counter is
  touched, no cache command is sent and the backend is not called. What it raises is not a
  validation error that reports the no-input message: lines 226, 231 and 236 are
  \<^verbatim>\<open>raise handle_missing(request, params.messages.no_input)\<close>, whose operand is the coroutine
  of an \<^verbatim>\<open>async def\<close>, so each fails with \<^verbatim>\<open>TypeError\<close>, for which no handler of the module
  is registered.
\<close>

theorem invalid_request_stops_before_cache:
  assumes "map_of (json request) ''target'' = Some t"
    and "map_of (json request) ''location'' = Some l"
    and "map_of (json request) ''query_type'' = Some q"
    and "t = [] \<or> l \<notin> set (hostnames cfg) \<or> \<not> is_supported_query cfg q"
  shows "hyperglass_main cfg Execute lat request w = (Inl (TypeError Handle_missing (no_input cfg)), w)
       \<and> query_route cfg Execute lat request w = (Inl (TypeError Handle_missing (no_input cfg)), w)"
  using assms by (auto simp: query_route_def hyperglass_main_def validate_def Let_def)

theorem invalid_request_stops_before_cache_witness:
  "query_route example_config example_backend example_latency
     (example_request\<lparr>json := [(''target'', []), (''location'', ''router1''),
                               (''query_type'', ''bgp_route'')]\<rparr>) example_world
   = (Inl (TypeError Handle_missing ''No input specified''), example_world)"
proof -
  let ?r = "example_request\<lparr>json := [(''target'', []), (''location'', ''router1''),
                                     (''query_type'', ''bgp_route'')]\<rparr>"
  have t: "map_of (json ?r) ''target'' = Some []"
    and l: "map_of (json ?r) ''location'' = Some ''router1''"
    and q: "map_of (json ?r) ''query_type'' = Some ''bgp_route''"
    by simp_all
  have bad: "([] :: string) = [] \<or> ''router1'' \<notin> set (hostnames example_config)
               \<or> \<not> is_supported_query example_config ''bgp_route''"
    by simp
  from invalid_request_stops_before_cache [OF t l q bad, of example_backend example_latency example_world]
  show ?thesis
    by (simp add: example_config_def)
qed

subsection \<open>Failure of the cache store\<close>

text \<open>
  Claim C7 says that a failed cache read is treated as a miss and the request goes on to the
  backend. It is not: with the store unreachable the example request ends with the exception of
  the Redis client, and the backend is never called.
\<close>

theorem cache_read_failure_counterexample:
  "query_route example_config example_backend example_latency example_request
     (example_world\<lparr>redis_down := Some ''Connection refused''\<rparr>)
   = (Inl (RedisError ''Connection refused''),
      \<lparr>clock = 0, r_cache = Map.empty, redis_down = Some ''Connection refused'',
       trace = [Count_data ''192.0.2.1'' ''bgp_route'' ''router1'' ''8.8.8.8'',
                Cache_get (cache_key (json example_request))]\<rparr>)"
proof -
  have addr: "remote_addr example_request = ''192.0.2.1''"
    by (simp add: example_request_def)
  show ?thesis
    by (simp add: query_route_def hyperglass_main_def example_valid redis_get_down Let_def
        example_world_def example_latency_def addr sleep_def emit_def)
qed

text \<open>
  Claim C7 as amended. \<^verbatim>\<open>hyperglass_main\<close> has no \<^verbatim>\<open>try\<close> around the cache read: for every
  valid request, a failure of the store at the first \<^verbatim>\<open>get\<close> leaves the handler as the
  exception of the Redis client, after the query counter and before any backend call, and no
  handler of the module turns it into a response. The administrative flush catches the failure of
  the store and raises \<^verbatim>\<open>HyperglassError\<close> with the text of the failure to its caller.
\<close>

theorem cache_read_failure_propagates:
  assumes valid: "validate cfg (json request) = Inr (t, l, q)"
    and down: "redis_down w = Some m"
  shows "query_route cfg Execute lat request w =
      (Inl (RedisError m),
       w\<lparr>clock := clock w + int (lat_check lat),
         trace := trace w @ [Count_data (remote_addr request) q l t,
                             Cache_get (cache_key (json request))]\<rparr>)
    \<and> clear_cache w =
      (Inl (HyperglassError (''Error clearing cache: '' @ m)), w\<lparr>trace := trace w @ [Cache_flushdb]\<rparr>)"
  using valid down
  by (simp add: query_route_def hyperglass_main_def clear_cache_def redis_flushdb_def
      redis_get_down Let_def sleep_def emit_def)

theorem cache_read_failure_propagates_witness:
  "fst (query_route example_config example_backend example_latency example_request
          (example_world\<lparr>redis_down := Some ''Connection refused''\<rparr>))
     = Inl (RedisError ''Connection refused'')
   \<and> filter is_backend_call
        (trace (snd (query_route example_config example_backend example_latency example_request
           (example_world\<lparr>redis_down := Some ''Connection refused''\<rparr>)))) = []
   \<and> fst (clear_cache (example_world\<lparr>redis_down := Some ''Connection refused''\<rparr>))
     = Inl (HyperglassError ''Error clearing cache: Connection refused'')"
proof -
  have down: "redis_down (example_world\<lparr>redis_down := Some ''Connection refused''\<rparr>)
      = Some ''Connection refused''"
    by simp
  from cache_read_failure_propagates [OF example_valid down, of example_backend example_latency]
  show ?thesis
    by (simp add: example_world_def)
qed

subsection \<open>Write-through on a miss, and expiry\<close>

text \<open>
  Claim C5. For every valid request on a cache miss where the backend returns a truthy result
  \<open>v\<close>, the handler sends \<^verbatim>\<open>set\<close> with the request's cache key and \<open>py_str v\<close>, then
  \<^verbatim>\<open>expire\<close> with the configured timeout, and only then reads the entry and returns the
  response with status 200; the store then holds that entry, ending the configured timeout after
  the \<^verbatim>\<open>expire\<close>. From that time on the entry is absent from the store, and an identical
  request whose cache check falls there calls the backend again (with any backend and any
  latencies).
\<close>

theorem miss_populates_cache:
  assumes valid: "validate cfg (json request) = Inr (t, l, q)"
    and up: "redis_down w = None"
    and miss: "\<not> truthy_opt (lookup (sleep (lat_check lat) w) (cache_key (json request)))"
    and returns: "Execute (json request) = Returns v"
    and truthy: "truthy v"
  shows "\<exists>out w'.
      hyperglass_main cfg Execute lat request w = (Inr (Json [(''output'', out)] 200), w') \<and>
      trace w' = trace w @ [Count_data (remote_addr request) q l t,
                            Cache_get (cache_key (json request)),
                            Execute_response (json request),
                            Cache_set (cache_key (json request)) (py_str v),
                            Cache_expire (cache_key (json request)) (cache_timeout cfg),
                            Cache_get (cache_key (json request))] \<and>
      r_cache w' (cache_key (json request)) =
        Some \<lparr>entry_value = py_str v,
              expires_at = Some (clock w + int (lat_check lat) + int (lat_execute lat)
                                 + int (lat_set lat) + int (lat_expire lat) + cache_timeout cfg)\<rparr> \<and>
      (\<forall>gap lat2 Execute2.
          clock w + int (lat_check lat) + int (lat_execute lat) + int (lat_set lat)
            + int (lat_expire lat) + cache_timeout cfg
            \<le> clock w' + int gap + int (lat_check lat2) \<longrightarrow>
          lookup (sleep (gap + lat_check lat2) w') (cache_key (json request)) = None \<and>
          (\<exists>evs. trace (snd (hyperglass_main cfg Execute2 lat2 request (sleep gap w'))) =
             trace w' @ [Count_data (remote_addr request) q l t,
                         Cache_get (cache_key (json request)),
                         Execute_response (json request)] @ evs))"
proof -
  let ?key = "cache_key (json request)"
  let ?texp = "clock w + int (lat_check lat) + int (lat_execute lat) + int (lat_set lat)
                 + int (lat_expire lat)"
  let ?e = "\<lparr>entry_value = py_str v, expires_at = Some (?texp + cache_timeout cfg)\<rparr>"
  obtain r w' where run: "hyperglass_main cfg Execute lat request w = (r, w')"
    by (cases "hyperglass_main cfg Execute lat request w")
  note stored = miss_stored [where Execute = Execute, OF valid up miss returns truthy]
  from run stored have r: "r = Inr (Json [(''output'',
      if int (lat_fetch lat) < cache_timeout cfg then JStr (py_str v) else JNull)] 200)"
    by simp
  from run stored have tr: "trace w' = trace w @ [Count_data (remote_addr request) q l t,
      Cache_get ?key, Execute_response (json request), Cache_set ?key (py_str v),
      Cache_expire ?key (cache_timeout cfg), Cache_get ?key]"
    by auto
  from run stored have cache: "r_cache w' ?key = Some ?e"
    by auto
  from run stored have up': "redis_down w' = None"
    by auto
  have again: "lookup (sleep (gap + lat_check lat2) w') ?key = None \<and>
      (\<exists>evs. trace (snd (hyperglass_main cfg Execute2 lat2 request (sleep gap w'))) =
         trace w' @ [Count_data (remote_addr request) q l t, Cache_get ?key,
                     Execute_response (json request)] @ evs)"
    if late: "?texp + cache_timeout cfg \<le> clock w' + int gap + int (lat_check lat2)"
    for gap lat2 Execute2
  proof -
    have gone: "lookup (sleep (gap + lat_check lat2) w') ?key = None"
      using cache late by (simp add: lookup_def live_def)
    have eq: "sleep (lat_check lat2) (sleep gap w') = sleep (gap + lat_check lat2) w'"
      by (simp add: sleep_def add.assoc)
    have miss2: "\<not> truthy_opt (lookup (sleep (lat_check lat2) (sleep gap w')) ?key)"
      by (simp add: eq gone truthy_opt_def)
    have up2: "redis_down (sleep gap w') = None"
      using up' by simp
    from miss_dispatches [OF valid up2 miss2, of Execute2] gone show ?thesis
      by simp
  qed
  from r tr cache again show ?thesis
    unfolding run by blast
qed

text \<open>
  The example request on the empty cache: the entry is stored until time 122; 120 seconds after
  the response (time 122) it is gone, and the same request calls the backend again, as the ninth
  event of the trace.
\<close>

theorem miss_populates_cache_witness:
  "r_cache (snd (hyperglass_main example_config example_backend example_latency example_request
                   example_world)) (cache_key (json example_request))
     = Some \<lparr>entry_value = ''BGP routing table entry for 8.8.8.0/24'', expires_at = Some 122\<rparr>
   \<and> lookup (sleep 120 (snd (hyperglass_main example_config example_backend example_latency
                example_request example_world))) (cache_key (json example_request)) = None
   \<and> trace (snd (hyperglass_main example_config example_backend example_latency example_request
        (sleep 120 (snd (hyperglass_main example_config example_backend example_latency
           example_request example_world))))) ! 8
     = Execute_response (json example_request)"
proof -
  have up: "redis_down example_world = None"
    by (simp add: example_world_def)
  have miss: "\<not> truthy_opt (lookup (sleep (lat_check example_latency) example_world)
                  (cache_key (json example_request)))"
    by (simp add: example_world_def lookup_def truthy_opt_def)
  have returns: "example_backend (json example_request) =
      Returns (PyStr ''BGP routing table entry for 8.8.8.0/24'')"
    by (simp add: example_backend_def)
  have truthy: "truthy (PyStr ''BGP routing table entry for 8.8.8.0/24'')"
    by simp
  from miss_populates_cache [where Execute = example_backend, OF example_valid up miss returns truthy]
  obtain out w' where
    run: "hyperglass_main example_config example_backend example_latency example_request
            example_world = (Inr (Json [(''output'', out)] 200), w')"
    and tr: "length (trace w') = 6"
    and cache: "r_cache w' (cache_key (json example_request)) =
        Some \<lparr>entry_value = ''BGP routing table entry for 8.8.8.0/24'', expires_at = Some 122\<rparr>"
    and again: "\<And>gap lat2 Execute2. 122 \<le> clock w' + int gap + int (lat_check lat2) \<Longrightarrow>
          lookup (sleep (gap + lat_check lat2) w') (cache_key (json example_request)) = None \<and>
          (\<exists>evs. trace (snd (hyperglass_main example_config Execute2 lat2 example_request
                                (sleep gap w'))) =
             trace w' @ [Count_data (remote_addr example_request) ''bgp_route'' ''router1'' ''8.8.8.8'',
                         Cache_get (cache_key (json example_request)),
                         Execute_response (json example_request)] @ evs)"
    by (auto simp: example_world_def example_latency_def example_config_def py_str_def)
  have clock: "clock w' = 2"
    using run by (auto simp: example_first_request example_world_cached_def)
  have late: "122 \<le> clock w' + int 120 + int (lat_check example_latency)"
    by (simp add: clock example_latency_def)
  from again [OF late, of example_backend] obtain evs where
    gone: "lookup (sleep 120 w') (cache_key (json example_request)) = None"
    and tr2: "trace (snd (hyperglass_main example_config example_backend example_latency
                example_request (sleep 120 w'))) =
       trace w' @ [Count_data (remote_addr example_request) ''bgp_route'' ''router1'' ''8.8.8.8'',
                   Cache_get (cache_key (json example_request)),
                   Execute_response (json example_request)] @ evs"
    by (auto simp: example_latency_def)
  from tr have nth: "(trace w' @ [Count_data (remote_addr example_request) ''bgp_route'' ''router1'' ''8.8.8.8'',
                   Cache_get (cache_key (json example_request)),
                   Execute_response (json example_request)] @ evs) ! 8
      = Execute_response (json example_request)"
    by (simp add: nth_append)
  from cache gone tr2 nth show ?thesis
    by (simp add: run)
qed

subsection \<open>The response is what the final read returns\<close>

text \<open>
  Claim C9 says that on a first (miss) request the returned value is the string conversion of
  the backend result. It is not when the entry is gone at the final \<^verbatim>\<open>get\<close>: with a
  configured timeout of 0 the \<^verbatim>\<open>expire\<close> ends the entry at once, and the example request,
  served from the empty cache by a backend that returns a non-empty string, is answered with
  status 200 and a null output.
\<close>

theorem first_miss_null_output_counterexample:
  "lookup (sleep (lat_check example_latency) example_world) (cache_key (json example_request)) = None
   \<and> example_backend (json example_request) = Returns (PyStr ''BGP routing table entry for 8.8.8.0/24'')
   \<and> fst (hyperglass_main (example_config\<lparr>cache_timeout := 0\<rparr>) example_backend example_latency
          example_request example_world)
     = Inr (Json [(''output'', JNull)] 200)"
proof -
  have none: "lookup (sleep (lat_check example_latency) example_world)
                (cache_key (json example_request)) = None"
    by (simp add: example_world_def lookup_def)
  have valid: "validate (example_config\<lparr>cache_timeout := 0\<rparr>) (json example_request)
      = Inr (''8.8.8.8'', ''router1'', ''bgp_route'')"
    by (simp add: validate_def example_config_def example_request_def)
  have up: "redis_down example_world = None"
    by (simp add: example_world_def)
  have miss: "\<not> truthy_opt (lookup (sleep (lat_check example_latency) example_world)
                  (cache_key (json example_request)))"
    by (simp add: example_world_def lookup_def truthy_opt_def)
  have returns: "example_backend (json example_request) =
      Returns (PyStr ''BGP routing table entry for 8.8.8.0/24'')"
    by (simp add: example_backend_def)
  have "fst (hyperglass_main (example_config\<lparr>cache_timeout := 0\<rparr>) example_backend
               example_latency example_request example_world)
     = Inr (Json [(''output'', JNull)] 200)"
    unfolding miss_stored [where Execute = example_backend, OF valid up miss returns, simplified]
    by simp
  with none returns show ?thesis
    by simp
qed

text \<open>
  Claim C9 as amended. Whenever \<^verbatim>\<open>hyperglass_main\<close> returns a response, its status is 200 and
  its output is the result of the \<^verbatim>\<open>get\<close> on the cache key that ends the run (null when that
  read finds nothing), not the value the backend returned. On a miss where the backend returns a
  truthy \<open>v\<close>, the value the handler writes to the store is \<open>py_str v\<close>, the string form of
  \<open>v\<close>; the output returned is \<open>py_str v\<close> when the configured timeout is longer than the
  latency of the final read, and null otherwise.
\<close>

theorem response_is_final_get:
  "(\<forall>resp w'. hyperglass_main cfg Execute lat request w = (Inr resp, w') \<longrightarrow>
      resp = Json [(''output'', case lookup w' (cache_key (json request)) of
                                  None \<Rightarrow> JNull | Some s \<Rightarrow> JStr s)] 200 \<and>
      (\<exists>evs. trace w' = evs @ [Cache_get (cache_key (json request))]))
   \<and> (\<forall>t l q v. validate cfg (json request) = Inr (t, l, q) \<and> redis_down w = None \<and>
        \<not> truthy_opt (lookup (sleep (lat_check lat) w) (cache_key (json request))) \<and>
        Execute (json request) = Returns v \<and> truthy v \<longrightarrow>
        fst (hyperglass_main cfg Execute lat request w) =
          Inr (Json [(''output'', if int (lat_fetch lat) < cache_timeout cfg
                                  then JStr (py_str v) else JNull)] 200) \<and>
        Cache_set (cache_key (json request)) (py_str v)
          \<in> set (trace (snd (hyperglass_main cfg Execute lat request w))) \<and>
        map_option entry_value (r_cache (snd (hyperglass_main cfg Execute lat request w))
           (cache_key (json request))) = Some (py_str v))"
proof (intro conjI allI impI)
  fix resp w'
  assume "hyperglass_main cfg Execute lat request w = (Inr resp, w')"
  from success_reads_cache [OF this]
  show "resp = Json [(''output'', case lookup w' (cache_key (json request)) of
                                  None \<Rightarrow> JNull | Some s \<Rightarrow> JStr s)] 200"
    and "\<exists>evs. trace w' = evs @ [Cache_get (cache_key (json request))]"
    by simp_all
next
  fix t l q v
  assume h: "validate cfg (json request) = Inr (t, l, q) \<and> redis_down w = None \<and>
        \<not> truthy_opt (lookup (sleep (lat_check lat) w) (cache_key (json request))) \<and>
        Execute (json request) = Returns v \<and> truthy v"
  then have valid: "validate cfg (json request) = Inr (t, l, q)"
    and up: "redis_down w = None"
    and miss: "\<not> truthy_opt (lookup (sleep (lat_check lat) w) (cache_key (json request)))"
    and returns: "Execute (json request) = Returns v"
    and truthy: "truthy v"
    by simp_all
  note stored = miss_stored [where Execute = Execute, OF valid up miss returns truthy]
  show "fst (hyperglass_main cfg Execute lat request w) =
          Inr (Json [(''output'', if int (lat_fetch lat) < cache_timeout cfg
                                  then JStr (py_str v) else JNull)] 200)"
    by (simp add: stored)
  show "Cache_set (cache_key (json request)) (py_str v)
          \<in> set (trace (snd (hyperglass_main cfg Execute lat request w)))"
    by (simp add: stored)
  show "map_option entry_value (r_cache (snd (hyperglass_main cfg Execute lat request w))
           (cache_key (json request))) = Some (py_str v)"
    by (simp add: stored)
qed

text \<open>
  A backend that returns the tuple \<^verbatim>\<open>('AS15169', 200)\<close>, with the timeout of 120 seconds: the
  response carries the text of the tuple, quotes and parentheses included, and that text is what
  the handler wrote to the cache.
\<close>

theorem response_is_final_get_witness:
  "fst (hyperglass_main example_config (\<lambda>d. Returns (PyTuple [PyStr ''AS15169'', PyInt 200]))
          example_latency example_request example_world)
     = Inr (Json [(''output'', JStr (CHR ''('' # CHR 0x27 # ''AS15169'' @ CHR 0x27 # '', 200)''))] 200)
   \<and> map_option entry_value
        (r_cache (snd (hyperglass_main example_config
           (\<lambda>d. Returns (PyTuple [PyStr ''AS15169'', PyInt 200])) example_latency example_request
           example_world)) (cache_key (json example_request)))
     = Some (CHR ''('' # CHR 0x27 # ''AS15169'' @ CHR 0x27 # '', 200)'')"
proof -
  let ?v = "PyTuple [PyStr ''AS15169'', PyInt 200]"
  have str: "py_str ?v = CHR ''('' # CHR 0x27 # ''AS15169'' @ CHR 0x27 # '', 200)''"
    by code_simp
  have up: "redis_down example_world = None"
    by (simp add: example_world_def)
  have miss: "\<not> truthy_opt (lookup (sleep (lat_check example_latency) example_world)
                  (cache_key (json example_request)))"
    by (simp add: example_world_def lookup_def truthy_opt_def)
  have fresh: "int (lat_fetch example_latency) < cache_timeout example_config"
    by (simp add: example_latency_def example_config_def)
  from example_valid up miss
  have h: "validate example_config (json example_request) = Inr (''8.8.8.8'', ''router1'', ''bgp_route'')
      \<and> redis_down example_world = None
      \<and> \<not> truthy_opt (lookup (sleep (lat_check example_latency) example_world)
                        (cache_key (json example_request)))
      \<and> (\<lambda>d. Returns ?v) (json example_request) = Returns ?v \<and> truthy ?v"
    by simp
  from response_is_final_get [of example_config "\<lambda>d. Returns ?v" example_latency example_request
      example_world] h
  have "fst (hyperglass_main example_config (\<lambda>d. Returns ?v) example_latency example_request
               example_world)
        = Inr (Json [(''output'', if int (lat_fetch example_latency) < cache_timeout example_config
                                  then JStr (py_str ?v) else JNull)] 200)
      \<and> map_option entry_value (r_cache (snd (hyperglass_main example_config (\<lambda>d. Returns ?v)
           example_latency example_request example_world)) (cache_key (json example_request)))
        = Some (py_str ?v)"
    by blast
  then show ?thesis
    unfolding str using fresh by simp
qed

subsection \<open>Counter updates\<close>





subsection \<open>The cache key\<close>

text \<open>
  Claim C6 says that the cache key does not depend on the order of the fields, so that two
  requests with the same target, location and query type have the same key. They do not when
  their bodies list the fields in different orders: \<^verbatim>\<open>str\<close> of a dictionary follows the
  insertion order of its keys.
\<close>

theorem cache_key_order_counterexample:
  "map_of [(''target'', ''8.8.8.8''), (''location'', ''router1''), (''query_type'', ''bgp_route'')]
   = map_of [(''location'', ''router1''), (''target'', ''8.8.8.8''), (''query_type'', ''bgp_route'')]
   \<and> cache_key [(''target'', ''8.8.8.8''), (''location'', ''router1''), (''query_type'', ''bgp_route'')]
     \<noteq> cache_key [(''location'', ''router1''), (''target'', ''8.8.8.8''), (''query_type'', ''bgp_route'')]"
proof
  show "map_of [(''target'', ''8.8.8.8''), (''location'', ''router1''), (''query_type'', ''bgp_route'')]
      = map_of [(''location'', ''router1''), (''target'', ''8.8.8.8''), (''query_type'', ''bgp_route'')]"
    by (rule ext) simp
  show "cache_key [(''target'', ''8.8.8.8''), (''location'', ''router1''), (''query_type'', ''bgp_route'')]
     \<noteq> cache_key [(''location'', ''router1''), (''target'', ''8.8.8.8''), (''query_type'', ''bgp_route'')]"
    by (simp add: cache_key_def str_dict_inj)
qed

text \<open>
  Claim C6 as amended. The cache key is a function of the request dictionary as it was received,
  the order of its fields included, and it is injective: two requests have the same key exactly
  when they have the same fields with the same values in the same order. In particular, requests
  that list the three fields in the same order and differ in a value have different keys.
\<close>

theorem cache_key_injective:
  "cache_key d1 = cache_key d2 \<longleftrightarrow> d1 = d2"
  by (simp add: cache_key_def str_dict_inj)

theorem cache_key_injective_witness:
  "cache_key [(''target'', ''8.8.8.8''), (''location'', ''router1''), (''query_type'', ''bgp_route'')]
     \<noteq> cache_key [(''target'', ''8.8.4.4''), (''location'', ''router1''), (''query_type'', ''bgp_route'')]"
  using cache_key_injective
    [of "[(''target'', ''8.8.8.8''), (''location'', ''router1''), (''query_type'', ''bgp_route'')]"
        "[(''target'', ''8.8.4.4''), (''location'', ''router1''), (''query_type'', ''bgp_route'')]"]
  by simp

end
